theory Spec2Isabelle
  imports Main
begin

section \<open>Python text primitives used by the handlers\<close>

text \<open>
  The handlers of \<^verbatim>\<open>math_bot/tg.py\<close> take message texts apart with \<^verbatim>\<open>str.split\<close>,
  \<^verbatim>\<open>str.strip\<close> and \<^verbatim>\<open>int\<close>. A Python \<^verbatim>\<open>str\<close> is a sequence of Unicode code points, so
  a text is a list of code points; \<open>ascii\<close> turns a literal of the source into such a list.
\<close>

type_synonym pystr = "nat list"

definition ascii :: "string \<Rightarrow> pystr" where
  "ascii s = map of_char s"

definition newline :: nat where
  "newline = 10"

definition blank :: nat where
  "blank = 32"

text \<open>
  The white space of \<^verbatim>\<open>str.split()\<close>, \<^verbatim>\<open>str.strip()\<close> and \<^verbatim>\<open>str.isspace()\<close>: the
  ASCII characters U+0009..U+000D, U+001C..U+001F and U+0020, and beyond ASCII U+0085,
  U+00A0, U+1680, U+2000..U+200A, U+2028, U+2029, U+202F, U+205F and U+3000.
\<close>

definition is_space :: "nat \<Rightarrow> bool" where
  "is_space c =
     ((9 \<le> c \<and> c \<le> 13) \<or> (28 \<le> c \<and> c \<le> 32) \<or> c = 133 \<or> c = 160 \<or> c = 5760 \<or>
      (8192 \<le> c \<and> c \<le> 8202) \<or> c = 8232 \<or> c = 8233 \<or> c = 8239 \<or> c = 8287 \<or> c = 12288)"

text \<open>\<^verbatim>\<open>s.split()\<close>: the maximal runs of characters that are not white space.\<close>

fun split_acc :: "pystr \<Rightarrow> pystr \<Rightarrow> pystr list" where
  "split_acc cur [] = (if cur = [] then [] else [cur])"
| "split_acc cur (c # cs) =
     (if is_space c then (if cur = [] then split_acc [] cs else cur # split_acc [] cs)
      else split_acc (cur @ [c]) cs)"

definition split :: "pystr \<Rightarrow> pystr list" where
  "split s = split_acc [] s"

text \<open>\<^verbatim>\<open>s.split(sep)\<close> for a separator of one character: every occurrence cuts, empty
  pieces are kept, and the result is never empty.\<close>

fun split_on_acc :: "nat \<Rightarrow> pystr \<Rightarrow> pystr \<Rightarrow> pystr list" where
  "split_on_acc sep cur [] = [cur]"
| "split_on_acc sep cur (c # cs) =
     (if c = sep then cur # split_on_acc sep [] cs else split_on_acc sep (cur @ [c]) cs)"

definition split_on :: "nat \<Rightarrow> pystr \<Rightarrow> pystr list" where
  "split_on sep s = split_on_acc sep [] s"

text \<open>\<^verbatim>\<open>s.strip()\<close> drops the white space at both ends.\<close>

definition trim :: "(nat \<Rightarrow> bool) \<Rightarrow> pystr \<Rightarrow> pystr" where
  "trim p s = rev (dropWhile p (rev (dropWhile p s)))"

definition strip :: "pystr \<Rightarrow> pystr" where
  "strip s = trim is_space s"

text \<open>\<^verbatim>\<open>xs[i]\<close> for a non-negative constant index: \<^verbatim>\<open>IndexError\<close> out of range.\<close>

datatype exn =
  IndexError | ValueError | AttributeError | KeyError | ZeroDivisionError | ArithmeticError
  | SizesMatchError | SquareMatrixRequired | NonInvertibleMatrix | OtherError

definition index :: "'a list \<Rightarrow> nat \<Rightarrow> exn + 'a" where
  "index xs i = (if i < length xs then Inr (xs ! i) else Inl IndexError)"

text \<open>
  \<^verbatim>\<open>int(s)\<close> in base ten; \<open>None\<close> is \<^verbatim>\<open>ValueError\<close>. Python first maps every character
  beyond ASCII to a blank when it is white space and to its digit when it is a decimal
  digit of Unicode, and then reads the ASCII text: the white space U+0009..U+000D and
  U+0020 at both ends is dropped (U+001C..U+001F is not), one sign is allowed, then come
  decimal digits, where single underscores may stand between digits. The table of the
  decimal digits beyond ASCII (category \<open>Nd\<close>, which grows with the version of Unicode) is
  the parameter \<open>dec\<close>. The limit of Python 3.11 on the number of digits (4300) is above the
  4096 characters of a message.
\<close>

definition int_space :: "nat \<Rightarrow> bool" where
  "int_space c = ((9 \<le> c \<and> c \<le> 13) \<or> c = 32 \<or> (127 \<le> c \<and> is_space c))"

definition digit_of :: "(nat \<Rightarrow> nat option) \<Rightarrow> nat \<Rightarrow> nat option" where
  "digit_of dec c =
     (if 48 \<le> c \<and> c \<le> 57 then Some (c - 48)
      else if c < 127 \<or> is_space c then None
      else dec c)"

fun parse_digits :: "(nat \<Rightarrow> nat option) \<Rightarrow> bool \<Rightarrow> nat \<Rightarrow> pystr \<Rightarrow> nat option" where
  "parse_digits dec prev acc [] = (if prev then Some acc else None)"
| "parse_digits dec prev acc (c # cs) =
     (case digit_of dec c of
        Some v \<Rightarrow> parse_digits dec True (acc * 10 + v) cs
      | None \<Rightarrow> if c = 95 \<and> prev then parse_digits dec False acc cs else None)"

definition py_int :: "(nat \<Rightarrow> nat option) \<Rightarrow> pystr \<Rightarrow> int option" where
  "py_int dec s =
     (case trim int_space s of
        [] \<Rightarrow> None
      | c # cs \<Rightarrow>
          if c = 45 then map_option (\<lambda>n. - int n) (parse_digits dec False 0 cs)
          else if c = 43 then map_option int (parse_digits dec False 0 cs)
          else map_option int (parse_digits dec False 0 (c # cs)))"

text \<open>A table without digits beyond ASCII.\<close>

definition only_ascii :: "nat \<Rightarrow> nat option" where
  "only_ascii c = None"

text \<open>\<^verbatim>\<open>str(n)\<close> for an integer.\<close>

fun str_nat :: "nat \<Rightarrow> pystr" where
  "str_nat n = (if n < 10 then [48 + n] else str_nat (n div 10) @ [48 + n mod 10])"

definition str_int :: "int \<Rightarrow> pystr" where
  "str_int i = (if i < 0 then 45 # str_nat (nat (- i)) else str_nat (nat i))"

section \<open>The report store\<close>

text \<open>
  The module \<^verbatim>\<open>models\<close> (classes \<^verbatim>\<open>User\<close> and \<^verbatim>\<open>ReportRecord\<close>) is not among the
  sources; \<^verbatim>\<open>tg.py\<close> only calls it. What the handlers need of it is modelled from the
  specification's data model: a report has an owner, a text, a status and an optional
  link, and the store assigns the id.
\<close>

datatype status = NEW | ACCEPTED | REJECTED | CLOSED

record report =
  user_id :: int
  report_text :: pystr
  status :: status
  link :: "pystr option"

record db =
  next_id :: int
  reports :: "int \<rightharpoonup> report"

text \<open>
  The handlers name a report either by the token cut out of a message text
  (\<^verbatim>\<open>call.message.text.split()[2]\<close>, a \<^verbatim>\<open>str\<close>) or by a number
  (\<^verbatim>\<open>int(call.data.split()[1])\<close>).
\<close>

datatype report_id = IdStr pystr | IdInt int

fun str_report_id :: "report_id \<Rightarrow> pystr" where
  "str_report_id (IdStr s) = s"
| "str_report_id (IdInt i) = str_int i"

text \<open>Modelled from the spec: the store is keyed by the report id (section 3,
  \<^verbatim>\<open>ReportRecord\<close>: "id (assigned by store, unique)"); \<^verbatim>\<open>models\<close> is missing. An id
  given as text names the report whose id is that decimal number, written in ASCII.\<close>

fun report_key :: "report_id \<Rightarrow> int option" where
  "report_key (IdInt i) = Some i"
| "report_key (IdStr s) = py_int only_ascii s"

text \<open>Modelled from the spec: \<^verbatim>\<open>ReportRecord.get_report_by_id(db, id)\<close> of the missing
  module \<^verbatim>\<open>models\<close>: the stored report with that id, if there is one.\<close>

definition get_report_by_id :: "db \<Rightarrow> report_id \<Rightarrow> report option" where
  "get_report_by_id d i = (case report_key i of None \<Rightarrow> None | Some k \<Rightarrow> reports d k)"

text \<open>Modelled from the spec: \<^verbatim>\<open>ReportRecord.change_status(db, id, action_token, link=None)\<close>
  of the missing module \<^verbatim>\<open>models\<close>. Section 3 gives the legal transitions
  \<open>NEW \<rightarrow> ACCEPTED\<close> (action \<^verbatim>\<open>accept_report\<close>, which sets the link), \<open>NEW \<rightarrow> REJECTED\<close>
  (action \<^verbatim>\<open>reject_report\<close>) and \<open>ACCEPTED \<rightarrow> CLOSED\<close> (action \<^verbatim>\<open>close_report\<close>);
  section 8: "all other transition attempts are no-ops that leave status and link
  unchanged".\<close>

definition transition :: "pystr \<Rightarrow> pystr option \<Rightarrow> report \<Rightarrow> report" where
  "transition action l r =
     (if action = ascii ''accept_report'' \<and> status r = NEW then r\<lparr>status := ACCEPTED, link := l\<rparr>
      else if action = ascii ''reject_report'' \<and> status r = NEW then r\<lparr>status := REJECTED\<rparr>
      else if action = ascii ''close_report'' \<and> status r = ACCEPTED then r\<lparr>status := CLOSED\<rparr>
      else r)"

definition change_status :: "db \<Rightarrow> report_id \<Rightarrow> pystr \<Rightarrow> pystr option \<Rightarrow> db" where
  "change_status d i action l =
     (case report_key i of
        None \<Rightarrow> d
      | Some k \<Rightarrow>
          (case reports d k of
             None \<Rightarrow> d
           | Some r \<Rightarrow> d\<lparr>reports := (reports d)(k \<mapsto> transition action l r)\<rparr>))"

text \<open>Modelled from the spec: \<^verbatim>\<open>ReportRecord.new(user, text)\<close> followed by
  \<^verbatim>\<open>db.add\<close> and \<^verbatim>\<open>db.commit\<close> (section 4.3, \<open>submit\<close>: "creates a NEW report owned by
  user"; section 8: "status NEW, link None"); the store assigns the next id.\<close>

definition add_new_report :: "db \<Rightarrow> int \<Rightarrow> pystr \<Rightarrow> db" where
  "add_new_report d uid txt =
     d\<lparr>next_id := next_id d + 1,
       reports := (reports d)(next_id d \<mapsto>
         \<lparr>user_id = uid, report_text = txt, status = NEW, link = None\<rparr>)\<rparr>"

definition empty_db :: db where
  "empty_db = \<lparr>next_id = 1, reports = Map.empty\<rparr>"

section \<open>Messages, callbacks and what a handler does\<close>

text \<open>
  A handler receives a message or a callback query and calls the bot API and the store.
  The calls to the bot API are recorded in order as a list of effects; the store is passed
  in and returned. A Python exception that leaves the handler is \<open>Inl\<close>; in every handler
  below it can only be raised before the first effect and before the store is changed.
  Keyboards are kept as far as they carry callback data; \<^verbatim>\<open>parse_mode\<close> is left out.
\<close>

record message =
  chat_id :: int
  from_user_id :: int
  message_id :: int
  msg_text :: pystr

record call =
  call_data :: pystr
  call_from_user_id :: int
  call_message :: message

datatype markup = NoMarkup | Menu | HideMenu | Inline "(pystr \<times> pystr) list"

text \<open>The function and the bound arguments given to \<^verbatim>\<open>register_next_step_handler\<close>.\<close>

datatype continuation =
  Matrix_input pystr
  | Ring_output pystr
  | Inverse_input_element
  | Inverse_output int
  | Link_handling report_id
  | Broadcast

datatype effect =
  SendMessage int pystr markup
  | ReplyTo int int pystr markup
  | RegisterNextStep int continuation

definition bind :: "exn + 'a \<Rightarrow> ('a \<Rightarrow> exn + 'b) \<Rightarrow> exn + 'b" where
  "bind x f = (case x of Inl e \<Rightarrow> Inl e | Inr v \<Rightarrow> f v)"

section \<open>The report workflow of \<^verbatim>\<open>tg.py\<close>\<close>

text \<open>\<^verbatim>\<open>report_handling\<close> (lines 452-460). The table of users is not modelled.\<close>

definition report_handling :: "message \<Rightarrow> db \<Rightarrow> db \<times> effect list" where
  "report_handling m d =
     (add_new_report d (from_user_id m) (msg_text m),
      [SendMessage (chat_id m) (ascii ''Thank you for reporting the issues to me!'') NoMarkup])"

text \<open>\<^verbatim>\<open>change_report_status\<close> (lines 491-507): three \<^verbatim>\<open>if\<close> statements in a row,
  each on \<^verbatim>\<open>call.data\<close>. \<^verbatim>\<open>get_report_by_id(db, id).status\<close> raises
  \<^verbatim>\<open>AttributeError\<close> when there is no such report.\<close>

definition accept_branch :: "call \<Rightarrow> pystr \<Rightarrow> effect list" where
  "accept_branch c i =
     (if call_data c = ascii ''accept_report''
      then [SendMessage (chat_id (call_message c))
              (ascii ''Provide a link to the GitHub issue, please.'') NoMarkup,
            RegisterNextStep (chat_id (call_message c)) (Link_handling (IdStr i))]
      else [])"

definition close_branch :: "call \<Rightarrow> pystr \<Rightarrow> db \<Rightarrow> exn + (db \<times> effect list)" where
  "close_branch c i d =
     (if call_data c = ascii ''close_report''
      then (case get_report_by_id d (IdStr i) of
              None \<Rightarrow> Inl AttributeError
            | Some r \<Rightarrow>
                if status r = ACCEPTED
                then Inr (change_status d (IdStr i) (call_data c) None,
                          [SendMessage (chat_id (call_message c))
                             (ascii ''The issue has been closed.'') NoMarkup])
                else Inr (d, [SendMessage (chat_id (call_message c))
                                (ascii ''The issue has not been confirmed yet!'') NoMarkup]))
      else Inr (d, []))"

definition reject_branch :: "call \<Rightarrow> pystr \<Rightarrow> db \<Rightarrow> db \<times> effect list" where
  "reject_branch c i d =
     (if call_data c = ascii ''reject_report''
      then (change_status d (IdStr i) (call_data c) None,
            [SendMessage (chat_id (call_message c)) (ascii ''The issue has been rejected.'') NoMarkup])
      else (d, []))"

definition change_report_status :: "call \<Rightarrow> db \<Rightarrow> exn + (db \<times> effect list)" where
  "change_report_status c d =
     bind (index (split (msg_text (call_message c))) 2) (\<lambda>i.
       bind (close_branch c i d) (\<lambda>(d1, fx1).
         case reject_branch c i d1 of
           (d2, fx2) \<Rightarrow> Inr (d2, accept_branch c i @ fx1 @ fx2)))"

text \<open>\<^verbatim>\<open>link_handling\<close> (lines 510-515): the link is echoed with the two buttons.\<close>

definition link_prompt :: "pystr \<Rightarrow> pystr" where
  "link_prompt l =
     (ascii ''<b>Is the link provided correct?</b>'') @ [newline] @ ascii ''<b>Link:</b> '' @ l"

definition link_handling :: "message \<Rightarrow> report_id \<Rightarrow> effect list" where
  "link_handling m i =
     [SendMessage (chat_id m) (link_prompt (msg_text m))
        (Inline [((ascii ''Confirm''), (ascii ''accept_link '') @ str_report_id i),
                 ((ascii ''Reject''), (ascii ''reject_link '') @ str_report_id i)])]"

text \<open>\<^verbatim>\<open>accept_link\<close> (lines 518-528). The id is read first (\<^verbatim>\<open>IndexError\<close>,
  \<^verbatim>\<open>ValueError\<close>); the link is an argument of \<^verbatim>\<open>change_status\<close>, so it is cut out of
  the message text before the store is called.\<close>

definition accept_link ::
  "(nat \<Rightarrow> nat option) \<Rightarrow> call \<Rightarrow> db \<Rightarrow> exn + (db \<times> effect list)" where
  "accept_link dec c d =
     bind (index (split (call_data c)) 1) (\<lambda>tok.
       case py_int dec tok of
         None \<Rightarrow> Inl ValueError
       | Some i \<Rightarrow>
           bind (index (split (call_data c)) 0) (\<lambda>cmd.
             if cmd = ascii ''accept_link''
             then bind (index (split_on newline (msg_text (call_message c))) 1) (\<lambda>line.
                    bind (index (split line) 1) (\<lambda>l.
                      Inr (change_status d (IdInt i) (ascii ''accept_report'') (Some l),
                           [SendMessage (chat_id (call_message c))
                              (ascii ''The issue has been confirmed.'') NoMarkup])))
             else Inr (d, [SendMessage (chat_id (call_message c))
                             (ascii ''Please provide the link again.'') NoMarkup,
                           RegisterNextStep (chat_id (call_message c))
                             (Link_handling (IdInt i))])))"

text \<open>The updates that reach the store, and the stores that the bot can reach from the
  empty one.\<close>

datatype update = Report_text message | Review_action call | Link_choice call

fun handle :: "(nat \<Rightarrow> nat option) \<Rightarrow> update \<Rightarrow> db \<Rightarrow> exn + (db \<times> effect list)" where
  "handle dec (Report_text m) d = Inr (report_handling m d)"
| "handle dec (Review_action c) d = change_report_status c d"
| "handle dec (Link_choice c) d = accept_link dec c d"

inductive reachable :: "(nat \<Rightarrow> nat option) \<Rightarrow> db \<Rightarrow> bool"
  for dec :: "nat \<Rightarrow> nat option" where
  start: "reachable dec empty_db"
| step: "reachable dec d \<Longrightarrow> handle dec u d = Inr (d', fx) \<Longrightarrow> reachable dec d'"

section \<open>Configuration and collaborators\<close>

text \<open>
  \<^verbatim>\<open>Config\<close> (module \<^verbatim>\<open>config\<close>) and the modules \<^verbatim>\<open>matrix\<close> and \<^verbatim>\<open>rings\<close> are not among
  the sources. The constants of \<^verbatim>\<open>Config\<close> and the functions that the handlers call are
  parameters of the handlers. Floating point numbers are an abstract type \<open>'f\<close>:
  \<open>py_float\<close> is \<^verbatim>\<open>float(x)\<close>, with \<open>None\<close> for \<^verbatim>\<open>ValueError\<close>; \<open>format_E\<close> is the
  format \<^verbatim>\<open>{:E}\<close>; the results of the matrix and ring functions are taken as rendered by
  \<^verbatim>\<open>str\<close>, and an exception they raise is \<open>Inl\<close>. The handlers that call \<^verbatim>\<open>int\<close>
  take the table \<open>dec\<close> of the decimal digits beyond ASCII as their first argument.
\<close>

record config =
  ADMINS :: "int list"
  MAX_MATRIX :: int
  MAX_MODULO :: int
  MAX_ELEMENTS :: int

record 'f extern =
  py_float :: "pystr \<Rightarrow> 'f option"
  format_E :: "int \<Rightarrow> pystr"
  matrix_det :: "'f list list \<Rightarrow> exn + pystr"
  matrix_ref :: "'f list list \<Rightarrow> exn + pystr"
  matrix_inverse :: "'f list list \<Rightarrow> exn + pystr"
  find_idempotents :: "int \<Rightarrow> (pystr \<times> pystr) list"
  find_nilpotents :: "int \<Rightarrow> pystr list"
  find_inverse :: "int \<Rightarrow> int \<Rightarrow> exn + int"

section \<open>Broadcast\<close>

text \<open>\<^verbatim>\<open>broadcast_input\<close> (lines 407-412).\<close>

definition broadcast_input :: "config \<Rightarrow> message \<Rightarrow> effect list" where
  "broadcast_input cfg m =
     (if from_user_id m \<notin> set (ADMINS cfg) then []
      else [SendMessage (chat_id m) (ascii ''Message for mailing:'') NoMarkup,
            RegisterNextStep (chat_id m) Broadcast])"

section \<open>The matrix dialogues\<close>


definition ref_input :: "message \<Rightarrow> effect list" where
  "ref_input m = [SendMessage (chat_id m) (ascii ''Enter the matrix: (in one message)'') HideMenu,
                  RegisterNextStep (chat_id m) (Matrix_input (ascii ''ref''))]"

definition inv_input :: "message \<Rightarrow> effect list" where
  "inv_input m = [SendMessage (chat_id m) (ascii ''Enter the matrix: (in one message)'') HideMenu,
                  RegisterNextStep (chat_id m) (Matrix_input (ascii ''m_inverse''))]"












section \<open>The ring dialogues\<close>

definition limitation :: "config \<Rightarrow> 'f extern \<Rightarrow> pystr" where
  "limitation cfg ex = ascii ''Limitation: 2 <= n < '' @ format_E ex (MAX_MODULO cfg)"

fun join :: "pystr \<Rightarrow> pystr list \<Rightarrow> pystr" where
  "join sep [] = []"
| "join sep [x] = x"
| "join sep (x # y # ys) = x @ sep @ join sep (y # ys)"

text \<open>\<^verbatim>\<open>ring_input\<close> (lines 249-252); the command is \<^verbatim>\<open>message.text[1:]\<close>.\<close>

definition ring_input :: "message \<Rightarrow> effect list" where
  "ring_input m = [SendMessage (chat_id m) (ascii ''Enter the ring modulus:'') NoMarkup,
                   RegisterNextStep (chat_id m) (Ring_output (drop 1 (msg_text m)))]"

text \<open>\<^verbatim>\<open>ring_output\<close> (lines 255-286): the effects and the returned answer.\<close>

definition ring_answer :: "pystr \<Rightarrow> int \<Rightarrow> config \<Rightarrow> pystr list \<Rightarrow> pystr" where
  "ring_answer title n cfg result =
     (ascii ''<b> '') @ title @ [blank] @ [1074] @ ascii '' Z/'' @ str_int n @ ascii ''</b>'' @ [newline] @
     (ascii ''Quantity: '') @ str_nat (length result) @ [newline, newline] @
     (if int (length result) > MAX_ELEMENTS cfg
      then (ascii ''There are too many elements to display...'')
      else join [newline] result) @ [newline]"

definition ring_output ::
  "(nat \<Rightarrow> nat option) \<Rightarrow> config \<Rightarrow> 'f extern \<Rightarrow> message \<Rightarrow> pystr \<Rightarrow>
     effect list \<times> pystr option" where
  "ring_output dec cfg ex m command =
     (case py_int dec (strip (msg_text m)) of
        None \<Rightarrow> ([SendMessage (chat_id m) (ascii ''Input data error'') Menu], None)
      | Some n \<Rightarrow>
          if n \<ge> MAX_MODULO cfg \<or> n < 2
          then ([SendMessage (chat_id m) (limitation cfg ex) Menu], None)
          else if command = ascii ''idempotents''
          then (let answer = ring_answer (ascii ''Idempotents'') n cfg
                      (map (\<lambda>(row, el). row @ ascii '' -> '' @ el) (find_idempotents ex n))
                in ([SendMessage (chat_id m) answer Menu], Some answer))
          else if command = ascii ''nilpotents''
          then (let answer = ring_answer (ascii ''Nilpotents'') n cfg (find_nilpotents ex n)
                in ([SendMessage (chat_id m) answer Menu], Some answer))
          else ([], None))"

text \<open>\<^verbatim>\<open>inverse_input_ring\<close>, \<^verbatim>\<open>inverse_input_element\<close> (lines 289-305).\<close>

definition inverse_input_ring :: "message \<Rightarrow> effect list" where
  "inverse_input_ring m = [SendMessage (chat_id m) (ascii ''Enter the ring modulus:'') NoMarkup,
                           RegisterNextStep (chat_id m) Inverse_input_element]"

definition inverse_input_element ::
  "(nat \<Rightarrow> nat option) \<Rightarrow> config \<Rightarrow> 'f extern \<Rightarrow> message \<Rightarrow> effect list" where
  "inverse_input_element dec cfg ex m =
     (case py_int dec (strip (msg_text m)) of
        None \<Rightarrow> [SendMessage (chat_id m) (ascii ''Input data error'') Menu]
      | Some n \<Rightarrow>
          if n \<ge> MAX_MODULO cfg \<or> n < 2
          then [SendMessage (chat_id m) (limitation cfg ex) Menu]
          else [SendMessage (chat_id m)
                  (ascii ''Enter the element for which you want to find the inverse:'') NoMarkup,
                RegisterNextStep (chat_id m) (Inverse_output n)])"

text \<open>\<^verbatim>\<open>inverse_output\<close> (lines 308-326). \<^verbatim>\<open>n % modulo\<close> stands outside the
  \<^verbatim>\<open>try\<close>, so a zero modulus raises; \<^verbatim>\<open>except ArithmeticError\<close> also catches its
  subclass \<^verbatim>\<open>ZeroDivisionError\<close>.\<close>

definition no_inverse_answer :: "int \<Rightarrow> int \<Rightarrow> pystr" where
  "no_inverse_answer n modulus =
     [1059] @ [blank] @ str_int n @ ascii '' <b>There is no inverse in the ring Z./'' @
     str_int modulus @ [newline] @ ascii ''As the GCD (Greatest Common Divisor)('' @ str_int n @
     (ascii '', '') @ str_int modulus @ ascii '') > 1''"

definition inverse_output ::
  "(nat \<Rightarrow> nat option) \<Rightarrow> 'f extern \<Rightarrow> message \<Rightarrow> int \<Rightarrow>
     exn + (effect list \<times> pystr option)" where
  "inverse_output dec ex m modulus =
     (case py_int dec (strip (msg_text m)) of
        None \<Rightarrow> Inr ([SendMessage (chat_id m) (ascii ''Input data error'') Menu], None)
      | Some n0 \<Rightarrow>
          if modulus = 0 then Inl ZeroDivisionError
          else (let n = n0 mod modulus in
                case find_inverse ex n modulus of
                  Inl e \<Rightarrow>
                    if e = ArithmeticError \<or> e = ZeroDivisionError
                    then Inr ([SendMessage (chat_id m) (no_inverse_answer n modulus) NoMarkup],
                              Some (no_inverse_answer n modulus))
                    else Inl e
                | Inr result \<Rightarrow>
                    Inr ([SendMessage (chat_id m) (str_int result) NoMarkup],
                         Some (str_int result))))"

section \<open>Reading a matrix text\<close>




section \<open>Sample data\<close>

text \<open>
  The scenario of the specification: user 3 reports "button broken", which becomes
  report 1; user 1 is the administrator. \<open>listing_text\<close> is the message that
  \<^verbatim>\<open>list_reports\<close> (lines 484-487) sends for that report, \<open>confirm_text\<close> the
  confirmation message of \<^verbatim>\<open>link_handling\<close> as the chat shows it.
\<close>

definition submit_msg :: message where
  "submit_msg = \<lparr>chat_id = 3, from_user_id = 3, message_id = 100, msg_text = ascii ''button broken''\<rparr>"

definition listing_text :: pystr where
  "listing_text =
     (ascii ''Report id: 1'') @ [newline] @ ascii ''User id: 3'' @ [newline] @
     (ascii ''Timestamp: 2023-01-01 00:00:00'') @ [newline, newline] @
     (ascii ''Problem statement:'') @ [newline] @ ascii ''button broken'' @ [newline, newline] @
     (ascii ''Status: NEW'') @ [newline] @ ascii ''Link: None''"

definition review_call :: "pystr \<Rightarrow> int \<Rightarrow> call" where
  "review_call data uid =
     \<lparr>call_data = data, call_from_user_id = uid,
      call_message = \<lparr>chat_id = uid, from_user_id = 0, message_id = 200,
                      msg_text = listing_text\<rparr>\<rparr>"

definition confirm_text :: "pystr \<Rightarrow> pystr" where
  "confirm_text l = ascii ''Is the link provided correct?'' @ [newline] @ ascii ''Link: '' @ l"

definition link_call :: "pystr \<Rightarrow> pystr \<Rightarrow> call" where
  "link_call data txt =
     \<lparr>call_data = data, call_from_user_id = 1,
      call_message = \<lparr>chat_id = 1, from_user_id = 0, message_id = 201, msg_text = txt\<rparr>\<rparr>"

definition report_new :: report where
  "report_new = \<lparr>user_id = 3, report_text = ascii ''button broken'', status = NEW, link = None\<rparr>"

definition report_accepted :: report where
  "report_accepted =
     \<lparr>user_id = 3, report_text = ascii ''button broken'', status = ACCEPTED,
      link = Some (ascii ''http://x/1'')\<rparr>"

definition db_new :: db where
  "db_new = \<lparr>next_id = 2, reports = [1 \<mapsto> report_new]\<rparr>"

definition db_accepted :: db where
  "db_accepted = \<lparr>next_id = 2, reports = [1 \<mapsto> report_accepted]\<rparr>"

definition sample_config :: config where
  "sample_config = \<lparr>ADMINS = [1], MAX_MATRIX = 8, MAX_MODULO = 1000000000, MAX_ELEMENTS = 200\<rparr>"

text \<open>The part of Python's table of decimal digits that the examples use: the
  Arabic-Indic digits U+0660..U+0669 and the fullwidth digits U+FF10..U+FF19.\<close>

definition sample_decimal :: "nat \<Rightarrow> nat option" where
  "sample_decimal c =
     (if 1632 \<le> c \<and> c \<le> 1641 then Some (c - 1632)
      else if 65296 \<le> c \<and> c \<le> 65305 then Some (c - 65296)
      else None)"

text \<open>Collaborators for the examples: numbers are integers, \<open>float\<close> accepts the decimal
  integer literals, every determinant is rendered as \<open>-2.0\<close> (that of the matrix with the
  rows \<open>1 2\<close> and \<open>3 4\<close>), and the inverse in \<open>Z/m\<close> is searched for among
  \<open>0, ..., m - 1\<close>.\<close>

definition sample_extern :: "int extern" where
  "sample_extern =
     \<lparr>py_float = py_int sample_decimal,
      format_E = (\<lambda>n. (ascii ''1.000000E+09'')),
      matrix_det = (\<lambda>rows. Inr (ascii ''-2.0'')),
      matrix_ref = (\<lambda>rows. Inr (ascii ''[]'')),
      matrix_inverse = (\<lambda>rows. Inl NonInvertibleMatrix),
      find_idempotents = (\<lambda>n. []),
      find_nilpotents = (\<lambda>n. []),
      find_inverse = (\<lambda>n m.
        case filter (\<lambda>x. n * x mod m = 1) (map int [0..<nat m]) of
          [] \<Rightarrow> Inl ArithmeticError
        | x # xs \<Rightarrow> Inr x)\<rparr>"

definition text_msg :: "pystr \<Rightarrow> message" where
  "text_msg txt = \<lparr>chat_id = 3, from_user_id = 3, message_id = 300, msg_text = txt\<rparr>"


text \<open>A link text with a no-break space after the link, the modulus 1 written with the
  fullwidth digit U+FF11, the element 10 written with fullwidth digits, a matrix text whose
  first row is cut by a no-break space, and a row of nine numbers.\<close>

definition nbsp_link :: pystr where
  "nbsp_link = ascii ''http://x/1'' @ [160] @ ascii ''see comment''"

definition fullwidth_one :: pystr where
  "fullwidth_one = [65297]"

definition fullwidth_ten :: pystr where
  "fullwidth_ten = [65297, 65296]"




section \<open>Facts about the store and the handlers\<close>

lemma ascii_eq_iff [simp]: "ascii a = ascii b \<longleftrightarrow> a = b"
  by (simp add: ascii_def inj_map_eq_map inj_of_char)

lemma ascii_append: "ascii (a @ b) = ascii a @ ascii b"
  by (simp add: ascii_def)

lemma reports_change_status:
  "reports (change_status d i a l) k' =
     (case report_key i of
        None \<Rightarrow> reports d k'
      | Some k \<Rightarrow> if k' = k then map_option (transition a l) (reports d k) else reports d k')"
  by (simp add: change_status_def split: option.splits)

lemma next_id_change_status: "next_id (change_status d i a l) = next_id d"
  by (simp add: change_status_def split: option.splits)

lemma reports_add_new_report:
  "reports (add_new_report d uid txt) k =
     (if k = next_id d
      then Some \<lparr>user_id = uid, report_text = txt, status = NEW, link = None\<rparr>
      else reports d k)"
  by (simp add: add_new_report_def)

lemma change_report_status_cases:
  assumes "change_report_status c d = Inr (d', fx)"
  shows "d' = d \<or>
         (\<exists>i. (call_data c = ascii ''reject_report'' \<or> call_data c = ascii ''close_report'') \<and>
               d' = change_status d (IdStr i) (call_data c) None)"
  using assms
  by (auto simp: change_report_status_def bind_def close_branch_def reject_branch_def
      split: sum.splits if_splits option.splits prod.splits)

lemma accept_link_cases:
  assumes "accept_link dec c d = Inr (d', fx)"
  shows "d' = d \<or>
         (\<exists>i l. index (split (call_data c)) 0 = Inr (ascii ''accept_link'') \<and>
                d' = change_status d (IdInt i) (ascii ''accept_report'') (Some l))"
  using assms
  by (auto simp: accept_link_def bind_def split: sum.splits if_splits option.splits)

lemma reachable_fresh:
  "reachable dec d \<Longrightarrow> reports d k = Some r \<Longrightarrow> k < next_id d"
proof (induction arbitrary: k r rule: reachable.induct)
  case start
  then show ?case by (simp add: empty_db_def)
next
  case (step d u d' fx)
  show ?case
  proof (cases u)
    case (Report_text m)
    with step.hyps have d': "d' = add_new_report d (from_user_id m) (msg_text m)"
      by (simp add: report_handling_def)
    show ?thesis
    proof (cases "k = next_id d")
      case True
      then show ?thesis by (simp add: d' add_new_report_def)
    next
      case False
      with step.prems d' have "reports d k = Some r"
        by (simp add: reports_add_new_report)
      from step.IH [OF this] show ?thesis by (simp add: d' add_new_report_def)
    qed
  next
    case (Review_action c)
    with step.hyps have "change_report_status c d = Inr (d', fx)" by simp
    from change_report_status_cases [OF this] step.prems step.IH show ?thesis
      by (auto simp: reports_change_status next_id_change_status split: option.splits if_splits)
  next
    case (Link_choice c)
    with step.hyps have "accept_link dec c d = Inr (d', fx)" by simp
    from accept_link_cases [OF this] step.prems step.IH show ?thesis
      by (auto simp: reports_change_status next_id_change_status split: option.splits if_splits)
  qed
qed

lemma handle_cases:
  assumes "handle dec u d = Inr (d', fx)"
  shows "d' = d
       \<or> (\<exists>m. u = Report_text m \<and> d' = add_new_report d (from_user_id m) (msg_text m))
       \<or> (\<exists>c i. u = Review_action c \<and>
                 (call_data c = ascii ''reject_report'' \<or> call_data c = ascii ''close_report'') \<and>
                 d' = change_status d (IdStr i) (call_data c) None)
       \<or> (\<exists>c i l. u = Link_choice c \<and> index (split (call_data c)) 0 = Inr (ascii ''accept_link'') \<and>
                   d' = change_status d (IdInt i) (ascii ''accept_report'') (Some l))"
proof (cases u)
  case (Report_text m)
  with assms show ?thesis by (simp add: report_handling_def)
next
  case (Review_action c)
  with assms have "change_report_status c d = Inr (d', fx)" by simp
  from change_report_status_cases [OF this] Review_action show ?thesis by blast
next
  case (Link_choice c)
  with assms have "accept_link dec c d = Inr (d', fx)" by simp
  from accept_link_cases [OF this] Link_choice show ?thesis by blast
qed

lemma transition_cases:
  "transition a l r = r
   \<or> (a = ascii ''accept_report'' \<and> status r = NEW \<and> transition a l r = r\<lparr>status := ACCEPTED, link := l\<rparr>)
   \<or> (a = ascii ''reject_report'' \<and> status r = NEW \<and> transition a l r = r\<lparr>status := REJECTED\<rparr>)
   \<or> (a = ascii ''close_report'' \<and> status r = ACCEPTED \<and> transition a l r = r\<lparr>status := CLOSED\<rparr>)"
  by (simp add: transition_def)

lemma close_only:
  assumes "call_data c = ascii ''close_report''"
  shows "accept_branch c i = []" and "reject_branch c i d = (d, [])"
  using assms by (simp_all add: accept_branch_def reject_branch_def)

lemma close_keeps_link:
  assumes "call_data c = ascii ''close_report''"
      and "change_report_status c d = Inr (d', fx)"
      and "reports d k = Some r"
  shows "\<exists>r'. reports d' k = Some r' \<and> link r' = link r"
proof -
  from change_report_status_cases [OF assms(2)] assms(1)
  consider "d' = d" | i where "d' = change_status d (IdStr i) (ascii ''close_report'') None"
    by auto
  then show ?thesis
  proof cases
    case 1
    with assms(3) show ?thesis by simp
  next
    case 2
    with assms(3) transition_cases [of "ascii ''close_report''" None r] show ?thesis
      by (auto simp: reports_change_status split: option.splits)
  qed
qed

section \<open>Evaluating the sample data\<close>

lemmas text_defs = split_def split_on_def is_space_def newline_def blank_def index_def ascii_def
lemmas int_defs = py_int_def strip_def trim_def int_space_def is_space_def digit_of_def
  only_ascii_def sample_decimal_def ascii_def
lemmas sample_defs = review_call_def link_call_def listing_text_def confirm_text_def
  db_new_def db_accepted_def report_new_def report_accepted_def submit_msg_def text_msg_def

lemma listing_id: "index (split (msg_text (call_message (review_call data uid)))) 2 = Inr (ascii ''1'')"
  by (simp add: sample_defs text_defs)

lemma key_1: "report_key (IdStr (ascii ''1'')) = Some 1"
  by (simp add: int_defs)

lemma py_int_1: "py_int dec (ascii ''1'') = Some 1"
  by (simp add: int_defs)

lemma reachable_db_new: "reachable dec db_new"
proof -
  have "handle dec (Report_text submit_msg) empty_db =
          Inr (db_new, [SendMessage 3 (ascii ''Thank you for reporting the issues to me!'') NoMarkup])"
    by (simp add: report_handling_def add_new_report_def empty_db_def sample_defs)
  from reachable.step [OF reachable.start this] show ?thesis .
qed

lemma confirm_db_new:
  "accept_link dec (link_call (ascii ''accept_link 1'') (confirm_text (ascii ''http://x/1''))) db_new =
     Inr (db_accepted, [SendMessage 1 (ascii ''The issue has been confirmed.'') NoMarkup])"
  by (simp add: accept_link_def bind_def sample_defs text_defs int_defs change_status_def
      transition_def)

lemma reachable_db_accepted: "reachable dec db_accepted"
proof -
  have "handle dec (Link_choice (link_call (ascii ''accept_link 1'') (confirm_text (ascii ''http://x/1'')))) db_new =
          Inr (db_accepted, [SendMessage 1 (ascii ''The issue has been confirmed.'') NoMarkup])"
    by (simp add: confirm_db_new)
  from reachable.step [OF reachable_db_new this] show ?thesis .
qed

lemma reject_db_new:
  "change_report_status (review_call (ascii ''reject_report'') uid) db_new =
     Inr (db_new\<lparr>reports := [1 \<mapsto> report_new\<lparr>status := REJECTED\<rparr>]\<rparr>,
          [SendMessage uid (ascii ''The issue has been rejected.'') NoMarkup])"
proof -
  have "change_report_status (review_call (ascii ''reject_report'') uid) db_new =
     bind (index (split (msg_text (call_message (review_call (ascii ''reject_report'') uid)))) 2) (\<lambda>i.
       bind (close_branch (review_call (ascii ''reject_report'') uid) i db_new) (\<lambda>(d1, fx1).
         case reject_branch (review_call (ascii ''reject_report'') uid) i d1 of
           (d2, fx2) \<Rightarrow> Inr (d2, accept_branch (review_call (ascii ''reject_report'') uid) i @ fx1 @ fx2)))"
    by (simp add: change_report_status_def)
  also have "\<dots> = Inr (db_new\<lparr>reports := [1 \<mapsto> report_new\<lparr>status := REJECTED\<rparr>]\<rparr>,
          [SendMessage uid (ascii ''The issue has been rejected.'') NoMarkup])"
    unfolding listing_id
    by (simp add: bind_def close_branch_def reject_branch_def accept_branch_def
        change_status_def py_int_1 transition_def review_call_def db_new_def report_new_def)
  finally show ?thesis .
qed

lemma close_db_accepted:
  "change_report_status (review_call (ascii ''close_report'') uid) db_accepted =
     Inr (db_accepted\<lparr>reports := [1 \<mapsto> report_accepted\<lparr>status := CLOSED\<rparr>]\<rparr>,
          [SendMessage uid (ascii ''The issue has been closed.'') NoMarkup])"
proof -
  have "change_report_status (review_call (ascii ''close_report'') uid) db_accepted =
     bind (index (split (msg_text (call_message (review_call (ascii ''close_report'') uid)))) 2) (\<lambda>i.
       bind (close_branch (review_call (ascii ''close_report'') uid) i db_accepted) (\<lambda>(d1, fx1).
         case reject_branch (review_call (ascii ''close_report'') uid) i d1 of
           (d2, fx2) \<Rightarrow> Inr (d2, accept_branch (review_call (ascii ''close_report'') uid) i @ fx1 @ fx2)))"
    by (simp add: change_report_status_def)
  also have "\<dots> = Inr (db_accepted\<lparr>reports := [1 \<mapsto> report_accepted\<lparr>status := CLOSED\<rparr>]\<rparr>,
          [SendMessage uid (ascii ''The issue has been closed.'') NoMarkup])"
    unfolding listing_id
    by (simp add: bind_def close_branch_def reject_branch_def accept_branch_def
        get_report_by_id_def change_status_def py_int_1 transition_def review_call_def
        db_accepted_def report_accepted_def)
  finally show ?thesis .
qed

section \<open>Facts about splitting texts\<close>

lemma split_acc_token:
  "cur @ takeWhile (\<lambda>c. \<not> is_space c) s \<noteq> [] \<Longrightarrow>
   split_acc cur s =
     (cur @ takeWhile (\<lambda>c. \<not> is_space c) s) # split_acc [] (dropWhile (\<lambda>c. \<not> is_space c) s)"
  by (induction s arbitrary: cur) auto

lemma split_acc_skip:
  "is_space c \<Longrightarrow> split_acc [] (c # s) = split_acc [] s"
  by simp

lemma split_label:
  assumes "label \<noteq> []" and "\<forall>ch\<in>set label. \<not> is_space ch" and "is_space w"
  shows "split (label @ w # t) = label # split t"
proof -
  from assms(2,3) have tw: "takeWhile (\<lambda>c. \<not> is_space c) (label @ w # t) = label"
    by (simp add: takeWhile_append2)
  from assms(2,3) have dw: "dropWhile (\<lambda>c. \<not> is_space c) (label @ w # t) = w # t"
    by (simp add: dropWhile_append2)
  from assms(1) tw have "split_acc [] (label @ w # t) = label # split_acc [] (w # t)"
    using split_acc_token [of "[]" "label @ w # t"] dw by simp
  with assms(3) show ?thesis by (simp add: split_def)
qed

lemma split_on_acc_hd:
  "split_on_acc sep cur s =
     (cur @ takeWhile (\<lambda>c. c \<noteq> sep) s) #
       (case dropWhile (\<lambda>c. c \<noteq> sep) s of [] \<Rightarrow> [] | _ # rest \<Rightarrow> split_on_acc sep [] rest)"
  by (induction s arbitrary: cur) auto

lemma takeWhile_until: "sep \<notin> set h \<Longrightarrow> takeWhile (\<lambda>c. c \<noteq> sep) (h @ sep # b) = h"
  by (induction h) auto

lemma dropWhile_until: "sep \<notin> set h \<Longrightarrow> dropWhile (\<lambda>c. c \<noteq> sep) (h @ sep # b) = sep # b"
  by (induction h) auto

lemma takeWhile_all: "\<forall>x\<in>set xs. P x \<Longrightarrow> takeWhile P (xs @ ys) = xs @ takeWhile P ys"
  by (induction xs) auto

lemma second_line:
  assumes "newline \<notin> set header"
  shows "index (split_on newline (header @ newline # body)) 1 =
           Inr (takeWhile (\<lambda>c. c \<noteq> newline) body)"
proof -
  from assms have tw: "takeWhile (\<lambda>c. c \<noteq> newline) (header @ newline # body) = header"
    by (rule takeWhile_until)
  from assms have dw: "dropWhile (\<lambda>c. c \<noteq> newline) (header @ newline # body) = newline # body"
    by (rule dropWhile_until)
  have "split_on newline (header @ newline # body) = header # split_on_acc newline [] body"
    unfolding split_on_def
    by (subst split_on_acc_hd) (simp add: tw dw)
  also have "split_on_acc newline [] body =
      takeWhile (\<lambda>c. c \<noteq> newline) body #
       (case dropWhile (\<lambda>c. c \<noteq> newline) body of [] \<Rightarrow> [] | _ # rest \<Rightarrow> split_on_acc newline [] rest)"
    by (subst split_on_acc_hd) simp
  finally show ?thesis by (simp add: index_def)
qed

lemma is_space_newline: "is_space newline"
  by (simp add: is_space_def newline_def)

lemma is_space_blank: "is_space blank"
  by (simp add: is_space_def blank_def)

lemma takeWhile_line_token:
  "takeWhile (\<lambda>c. \<not> is_space c) (takeWhile (\<lambda>c. c \<noteq> newline) t) = takeWhile (\<lambda>c. \<not> is_space c) t"
  by (induction t) (auto simp: is_space_newline)

lemma split_first_token:
  assumes "takeWhile (\<lambda>c. \<not> is_space c) s \<noteq> []"
  shows "\<exists>ls. split s = takeWhile (\<lambda>c. \<not> is_space c) s # ls"
  using split_acc_token [of "[]" s] assms by (simp add: split_def)

section \<open>Facts about reading a matrix text\<close>

lemma those_None: "those xs = None \<longleftrightarrow> None \<in> set xs"
  by (induction xs) (auto split: option.splits)








section \<open>The report lifecycle\<close>

text \<open>
  Claim C1. For every report of a reachable store, one update handled by the bot either
  leaves its status and link as they are, or takes it from \<open>NEW\<close> to \<open>ACCEPTED\<close> with a link
  (only the callback \<^verbatim>\<open>accept_link\<close> does that), from \<open>NEW\<close> to \<open>REJECTED\<close> with the link
  unchanged (only \<^verbatim>\<open>reject_report\<close>), or from \<open>ACCEPTED\<close> to \<open>CLOSED\<close> with the link
  unchanged (only \<^verbatim>\<open>close_report\<close>). So an accept or reject of a report that is not
  \<open>NEW\<close>, and a close of a report that is not \<open>ACCEPTED\<close>, change neither status nor link.
  The transitions themselves are those of \<open>change_status\<close>, which is modelled from the
  specification.
\<close>

theorem status_transitions:
  assumes re: "reachable dec d"
      and ha: "handle dec u d = Inr (d', fx)"
      and rp: "reports d k = Some r"
  shows "\<exists>r'. reports d' k = Some r' \<and>
           ((status r' = status r \<and> link r' = link r)
          \<or> (status r = NEW \<and> status r' = ACCEPTED \<and> link r' \<noteq> None \<and>
              (\<exists>c. u = Link_choice c \<and> index (split (call_data c)) 0 = Inr (ascii ''accept_link'')))
          \<or> (status r = NEW \<and> status r' = REJECTED \<and> link r' = link r \<and>
              (\<exists>c. u = Review_action c \<and> call_data c = ascii ''reject_report''))
          \<or> (status r = ACCEPTED \<and> status r' = CLOSED \<and> link r' = link r \<and>
              (\<exists>c. u = Review_action c \<and> call_data c = ascii ''close_report'')))"
proof -
  from reachable_fresh [OF re rp] have fresh: "k \<noteq> next_id d" by simp
  from handle_cases [OF ha]
  consider (same) "d' = d"
    | (new) m where "u = Report_text m" "d' = add_new_report d (from_user_id m) (msg_text m)"
    | (review) c i where "u = Review_action c"
        "call_data c = ascii ''reject_report'' \<or> call_data c = ascii ''close_report''"
        "d' = change_status d (IdStr i) (call_data c) None"
    | (confirm) c i l where "u = Link_choice c"
        "index (split (call_data c)) 0 = Inr (ascii ''accept_link'')"
        "d' = change_status d (IdInt i) (ascii ''accept_report'') (Some l)"
    by blast
  then show ?thesis
  proof cases
    case same
    with rp show ?thesis by simp
  next
    case new
    with rp fresh show ?thesis by (simp add: reports_add_new_report)
  next
    case review
    show ?thesis
    proof (cases "report_key (IdStr i) = Some k")
      case True
      with rp review(3) have "reports d' k = Some (transition (call_data c) None r)"
        by (simp add: reports_change_status)
      with review(1,2) transition_cases [of "call_data c" None r] show ?thesis
        by auto
    next
      case False
      with rp review(3) have "reports d' k = Some r"
        by (auto simp: reports_change_status split: option.splits)
      then show ?thesis by simp
    qed
  next
    case confirm
    show ?thesis
    proof (cases "i = k")
      case True
      with rp confirm(3) have "reports d' k = Some (transition (ascii ''accept_report'') (Some l) r)"
        by (simp add: reports_change_status)
      with confirm(1,2) transition_cases [of "ascii ''accept_report''" "Some l" r] show ?thesis
        by auto
    next
      case False
      with rp confirm(3) have "reports d' k = Some r"
        by (auto simp: reports_change_status split: option.splits)
      then show ?thesis by simp
    qed
  qed
qed

theorem status_transitions_witness:
  "reachable sample_decimal db_new
   \<and> handle sample_decimal (Review_action (review_call (ascii ''reject_report'') 1)) db_new =
       Inr (db_new\<lparr>reports := [1 \<mapsto> report_new\<lparr>status := REJECTED\<rparr>]\<rparr>,
            [SendMessage 1 (ascii ''The issue has been rejected.'') NoMarkup])
   \<and> reports db_new 1 = Some report_new
   \<and> (\<exists>r'. reports (db_new\<lparr>reports := [1 \<mapsto> report_new\<lparr>status := REJECTED\<rparr>]\<rparr>) 1 = Some r' \<and>
        status report_new = NEW \<and> status r' = REJECTED \<and> link r' = link report_new)"
proof -
  have h: "handle sample_decimal (Review_action (review_call (ascii ''reject_report'') 1)) db_new =
       Inr (db_new\<lparr>reports := [1 \<mapsto> report_new\<lparr>status := REJECTED\<rparr>]\<rparr>,
            [SendMessage 1 (ascii ''The issue has been rejected.'') NoMarkup])"
    by (simp add: reject_db_new)
  have r: "reports db_new 1 = Some report_new"
    by (simp add: db_new_def)
  from status_transitions [OF reachable_db_new h r] reachable_db_new h r show ?thesis
    by (simp add: report_new_def)
qed

text \<open>
  Claim C2. In every store that the bot can reach from the empty one, a report has a link
  if and only if its status is \<open>ACCEPTED\<close> or \<open>CLOSED\<close>; so a \<open>NEW\<close> or \<open>REJECTED\<close> report
  has none, and \<^verbatim>\<open>close_report\<close> keeps the link that the report has.
\<close>

theorem link_iff_accepted_or_closed:
  assumes re: "reachable dec d" and rp: "reports d k = Some r"
  shows "(link r \<noteq> None) = (status r = ACCEPTED \<or> status r = CLOSED)
       \<and> (\<forall>c d' fx. call_data c = ascii ''close_report'' \<longrightarrow>
              change_report_status c d = Inr (d', fx) \<longrightarrow>
              (\<exists>r'. reports d' k = Some r' \<and> link r' = link r))"
proof -
  have inv: "(link r \<noteq> None) = (status r = ACCEPTED \<or> status r = CLOSED)"
    using re rp
  proof (induction arbitrary: k r rule: reachable.induct)
    case start
    then show ?case by (simp add: empty_db_def)
  next
    case (step d u d' fx)
    from handle_cases [OF step.hyps(2)]
    consider (same) "d' = d"
      | (new) m where "u = Report_text m" "d' = add_new_report d (from_user_id m) (msg_text m)"
      | (review) c i where "u = Review_action c"
          "call_data c = ascii ''reject_report'' \<or> call_data c = ascii ''close_report''"
          "d' = change_status d (IdStr i) (call_data c) None"
      | (confirm) c i l where "u = Link_choice c"
          "index (split (call_data c)) 0 = Inr (ascii ''accept_link'')"
          "d' = change_status d (IdInt i) (ascii ''accept_report'') (Some l)"
      by blast
    then show ?case
    proof cases
      case same
      with step.prems step.IH show ?thesis by simp
    next
      case new
      with step.prems step.IH show ?thesis
        by (auto simp: reports_add_new_report split: if_splits)
    next
      case review
      show ?thesis
      proof (cases "report_key (IdStr i) = Some k")
        case True
        with step.prems review(3) obtain r0 where r0: "reports d k = Some r0"
          and r: "r = transition (call_data c) None r0"
          by (auto simp: reports_change_status)
        from step.IH [OF r0] review(2) transition_cases [of "call_data c" None r0] r
        show ?thesis by auto
      next
        case False
        with step.prems review(3) have "reports d k = Some r"
          by (auto simp: reports_change_status split: option.splits)
        from step.IH [OF this] show ?thesis .
      qed
    next
      case confirm
      show ?thesis
      proof (cases "i = k")
        case True
        with step.prems confirm(3) obtain r0 where r0: "reports d k = Some r0"
          and r: "r = transition (ascii ''accept_report'') (Some l) r0"
          by (auto simp: reports_change_status)
        from step.IH [OF r0] transition_cases [of "ascii ''accept_report''" "Some l" r0] r
        show ?thesis by auto
      next
        case False
        with step.prems confirm(3) have "reports d k = Some r"
          by (auto simp: reports_change_status split: option.splits)
        from step.IH [OF this] show ?thesis .
      qed
    qed
  qed
  from close_keeps_link [OF _ _ rp]
  have "\<forall>c d' fx. call_data c = ascii ''close_report'' \<longrightarrow>
          change_report_status c d = Inr (d', fx) \<longrightarrow>
          (\<exists>r'. reports d' k = Some r' \<and> link r' = link r)"
    by blast
  with inv show ?thesis by blast
qed

theorem link_iff_accepted_or_closed_witness:
  "reachable sample_decimal db_accepted \<and> reports db_accepted 1 = Some report_accepted
   \<and> link report_accepted = Some (ascii ''http://x/1'') \<and> status report_accepted = ACCEPTED
   \<and> (\<exists>r'. reports (db_accepted\<lparr>reports := [1 \<mapsto> report_accepted\<lparr>status := CLOSED\<rparr>]\<rparr>) 1 = Some r'
          \<and> link r' = link report_accepted)"
proof -
  have r: "reports db_accepted 1 = Some report_accepted"
    by (simp add: db_accepted_def)
  from link_iff_accepted_or_closed [OF reachable_db_accepted r] reachable_db_accepted r
    close_db_accepted
  show ?thesis by (simp add: report_accepted_def review_call_def)
qed

text \<open>
  Claim C4. \<^verbatim>\<open>close_report\<close> on a report whose status is \<open>ACCEPTED\<close> makes it \<open>CLOSED\<close> and
  answers that the issue has been closed; on a report with any other status the store is
  left as it is and the answer is that the issue has not been confirmed yet.
\<close>

theorem close_report_transition:
  assumes cd: "call_data c = ascii ''close_report''"
      and ix: "index (split (msg_text (call_message c))) 2 = Inr i"
      and ky: "report_key (IdStr i) = Some k"
      and rp: "reports d k = Some r"
  shows "(status r = ACCEPTED \<longrightarrow>
            change_report_status c d =
              Inr (d\<lparr>reports := (reports d)(k \<mapsto> r\<lparr>status := CLOSED\<rparr>)\<rparr>,
                   [SendMessage (chat_id (call_message c)) (ascii ''The issue has been closed.'') NoMarkup]))
       \<and> (status r \<noteq> ACCEPTED \<longrightarrow>
            change_report_status c d =
              Inr (d, [SendMessage (chat_id (call_message c))
                         (ascii ''The issue has not been confirmed yet!'') NoMarkup]))"
  using assms
  by (simp add: change_report_status_def bind_def close_branch_def close_only
      get_report_by_id_def change_status_def transition_def)

theorem close_report_transition_witness:
  "change_report_status (review_call (ascii ''close_report'') 1) db_accepted =
     Inr (db_accepted\<lparr>reports := [1 \<mapsto> report_accepted\<lparr>status := CLOSED\<rparr>]\<rparr>,
          [SendMessage 1 (ascii ''The issue has been closed.'') NoMarkup])
   \<and> change_report_status (review_call (ascii ''close_report'') 1) db_new =
     Inr (db_new, [SendMessage 1 (ascii ''The issue has not been confirmed yet!'') NoMarkup])"
proof -
  have c: "call_data (review_call (ascii ''close_report'') 1) = ascii ''close_report''"
    by (simp add: review_call_def)
  have ra: "reports db_accepted 1 = Some report_accepted" by (simp add: db_accepted_def)
  have rn: "reports db_new 1 = Some report_new" by (simp add: db_new_def)
  from close_report_transition [OF c listing_id key_1 ra]
    close_report_transition [OF c listing_id key_1 rn]
  show ?thesis
    by (simp add: report_accepted_def report_new_def review_call_def db_accepted_def)
qed

text \<open>
  Claim C3. In the accept sub-flow nothing is changed before the confirmation:
  \<^verbatim>\<open>accept_report\<close> only asks for the link and registers \<^verbatim>\<open>link_handling\<close>
  (which has no access to the store); the callback \<^verbatim>\<open>reject_link\<close> asks again, registers
  \<^verbatim>\<open>link_handling\<close> again and leaves the store as it is; only the callback
  \<^verbatim>\<open>accept_link\<close> takes a \<open>NEW\<close> report to \<open>ACCEPTED\<close> and sets its link in the same step.
\<close>

theorem accept_flow_commits_on_confirmation:
  "(call_data c = ascii ''accept_report'' \<longrightarrow> index (split (msg_text (call_message c))) 2 = Inr i \<longrightarrow>
      change_report_status c d =
        Inr (d, [SendMessage (chat_id (call_message c))
                   (ascii ''Provide a link to the GitHub issue, please.'') NoMarkup,
                 RegisterNextStep (chat_id (call_message c)) (Link_handling (IdStr i))]))
 \<and> (index (split (call_data c)) 0 = Inr cmd \<longrightarrow> index (split (call_data c)) 1 = Inr n_txt \<longrightarrow>
    py_int dec n_txt = Some n \<longrightarrow> cmd \<noteq> ascii ''accept_link'' \<longrightarrow>
      accept_link dec c d =
        Inr (d, [SendMessage (chat_id (call_message c)) (ascii ''Please provide the link again.'') NoMarkup,
                 RegisterNextStep (chat_id (call_message c)) (Link_handling (IdInt n))]))
 \<and> (index (split (call_data c)) 0 = Inr (ascii ''accept_link'') \<longrightarrow>
    index (split (call_data c)) 1 = Inr n_txt \<longrightarrow> py_int dec n_txt = Some n \<longrightarrow>
    index (split_on newline (msg_text (call_message c))) 1 = Inr line \<longrightarrow>
    index (split line) 1 = Inr l \<longrightarrow> reports d n = Some r \<longrightarrow> status r = NEW \<longrightarrow>
      accept_link dec c d =
        Inr (d\<lparr>reports := (reports d)(n \<mapsto> r\<lparr>status := ACCEPTED, link := Some l\<rparr>)\<rparr>,
             [SendMessage (chat_id (call_message c)) (ascii ''The issue has been confirmed.'') NoMarkup]))"
  by (simp add: change_report_status_def bind_def accept_branch_def close_branch_def
      reject_branch_def accept_link_def change_status_def transition_def)

theorem accept_flow_commits_on_confirmation_witness:
  "change_report_status (review_call (ascii ''accept_report'') 1) db_new =
     Inr (db_new, [SendMessage 1 (ascii ''Provide a link to the GitHub issue, please.'') NoMarkup,
                   RegisterNextStep 1 (Link_handling (IdStr (ascii ''1'')))])
   \<and> accept_link sample_decimal (link_call (ascii ''reject_link 1'') (confirm_text (ascii ''http://x/1''))) db_new =
     Inr (db_new, [SendMessage 1 (ascii ''Please provide the link again.'') NoMarkup,
                   RegisterNextStep 1 (Link_handling (IdInt 1))])
   \<and> accept_link sample_decimal (link_call (ascii ''accept_link 1'') (confirm_text (ascii ''http://x/1''))) db_new =
     Inr (db_new\<lparr>reports := [1 \<mapsto> report_new\<lparr>status := ACCEPTED, link := Some (ascii ''http://x/1'')\<rparr>]\<rparr>,
          [SendMessage 1 (ascii ''The issue has been confirmed.'') NoMarkup])"
proof -
  let ?a = "review_call (ascii ''accept_report'') 1"
  let ?r = "link_call (ascii ''reject_link 1'') (confirm_text (ascii ''http://x/1''))"
  let ?c = "link_call (ascii ''accept_link 1'') (confirm_text (ascii ''http://x/1''))"
  have a1: "call_data ?a = ascii ''accept_report''" by (simp add: review_call_def)
  have r0: "index (split (call_data ?r)) 0 = Inr (ascii ''reject_link'')"
    and r1: "index (split (call_data ?r)) 1 = Inr (ascii ''1'')"
    by (simp_all add: link_call_def text_defs)
  have r2: "(ascii ''reject_link'') \<noteq> ascii ''accept_link''" by simp
  have c0: "index (split (call_data ?c)) 0 = Inr (ascii ''accept_link'')"
    and c1: "index (split (call_data ?c)) 1 = Inr (ascii ''1'')"
    by (simp_all add: link_call_def text_defs)
  have c2: "index (split_on newline (msg_text (call_message ?c))) 1 = Inr (ascii ''Link: http://x/1'')"
    by (simp add: link_call_def confirm_text_def text_defs)
  have c3: "index (split (ascii ''Link: http://x/1'')) 1 = Inr (ascii ''http://x/1'')"
    by (simp add: text_defs)
  have g: "reports db_new 1 = Some report_new" by (simp add: db_new_def)
  have h: "status report_new = NEW" by (simp add: report_new_def)
  note flow = accept_flow_commits_on_confirmation
  have "change_report_status ?a db_new =
     Inr (db_new, [SendMessage (chat_id (call_message ?a))
                     (ascii ''Provide a link to the GitHub issue, please.'') NoMarkup,
                   RegisterNextStep (chat_id (call_message ?a)) (Link_handling (IdStr (ascii ''1'')))])"
    using flow [where c = ?a and i = "ascii ''1''" and d = db_new] a1 listing_id by blast
  moreover have "accept_link sample_decimal ?r db_new =
     Inr (db_new, [SendMessage (chat_id (call_message ?r)) (ascii ''Please provide the link again.'') NoMarkup,
                   RegisterNextStep (chat_id (call_message ?r)) (Link_handling (IdInt 1))])"
    using flow [where c = ?r and d = db_new and cmd = "ascii ''reject_link''" and n_txt = "ascii ''1''"
        and n = 1] r0 r1 r2 py_int_1 by blast
  moreover have "accept_link sample_decimal ?c db_new =
     Inr (db_new\<lparr>reports := (reports db_new)(1 \<mapsto> report_new\<lparr>status := ACCEPTED, link := Some (ascii ''http://x/1'')\<rparr>)\<rparr>,
          [SendMessage (chat_id (call_message ?c)) (ascii ''The issue has been confirmed.'') NoMarkup])"
    using flow [where c = ?c and d = db_new and n_txt = "ascii ''1''" and n = 1
        and line = "ascii ''Link: http://x/1''" and l = "ascii ''http://x/1''" and r = report_new]
      c0 c1 c2 c3 py_int_1 g h by blast
  ultimately show ?thesis
    by (simp add: review_call_def link_call_def db_new_def)
qed

text \<open>
  Claim C9. When the administrator confirms, the link that \<^verbatim>\<open>accept_link\<close> hands to
  \<^verbatim>\<open>ReportRecord.change_status\<close> to be stored on the report is the token that follows the
  label \<^verbatim>\<open>Link:\<close> on the second line of the confirmation message, that is the first token
  of the first line of the link text \<open>t\<close>; when \<open>t\<close> does not begin with white space this
  is the part of \<open>t\<close> before its first white space, and the rest of \<open>t\<close> is dropped. The
  message text may carry the label with or without its markup: any header without a line
  feed and any label without white space will do.
\<close>

theorem stored_link_is_first_token:
  assumes mtx: "msg_text (call_message c) = header @ [newline] @ label @ [blank] @ t"
      and hdr: "newline \<notin> set header"
      and lab: "label \<noteq> []" "\<forall>ch\<in>set label. \<not> is_space ch"
      and tok: "split (takeWhile (\<lambda>ch. ch \<noteq> newline) t) = l # ls"
      and dat: "split (call_data c) = [(ascii ''accept_link''), n_txt]"
      and num: "py_int dec n_txt = Some n"
  shows "accept_link dec c d =
           Inr (change_status d (IdInt n) (ascii ''accept_report'') (Some l),
                [SendMessage (chat_id (call_message c)) (ascii ''The issue has been confirmed.'') NoMarkup])
         \<and> (takeWhile (\<lambda>ch. \<not> is_space ch) t \<noteq> [] \<longrightarrow> l = takeWhile (\<lambda>ch. \<not> is_space ch) t)"
proof -
  have nl: "\<forall>ch\<in>set label. ch \<noteq> newline"
    using lab(2) is_space_newline by auto
  have line: "index (split_on newline (msg_text (call_message c))) 1 =
                Inr (label @ blank # takeWhile (\<lambda>ch. ch \<noteq> newline) t)"
    using second_line [OF hdr, of "label @ [blank] @ t"] takeWhile_all [OF nl]
    by (simp add: mtx newline_def blank_def)
  have toks: "split (label @ blank # takeWhile (\<lambda>ch. ch \<noteq> newline) t) = label # l # ls"
    using split_label [OF lab is_space_blank] tok by simp
  have first: "accept_link dec c d =
           Inr (change_status d (IdInt n) (ascii ''accept_report'') (Some l),
                [SendMessage (chat_id (call_message c)) (ascii ''The issue has been confirmed.'') NoMarkup])"
  proof -
    have i0: "index (split (call_data c)) 0 = Inr (ascii ''accept_link'')"
      and i1: "index (split (call_data c)) 1 = Inr n_txt"
      by (simp_all add: dat index_def)
    have i2: "index (split (label @ blank # takeWhile (\<lambda>ch. ch \<noteq> newline) t)) 1 = Inr l"
      by (simp add: toks index_def)
    show ?thesis
      using i0 i1 i2 line
      by (simp add: accept_link_def bind_def num)
  qed
  have second: "l = takeWhile (\<lambda>ch. \<not> is_space ch) t"
    if "takeWhile (\<lambda>ch. \<not> is_space ch) t \<noteq> []"
  proof -
    from that have "takeWhile (\<lambda>c. \<not> is_space c) (takeWhile (\<lambda>c. c \<noteq> newline) t) \<noteq> []"
      by (simp add: takeWhile_line_token)
    from split_first_token [OF this] tok show ?thesis
      by (simp add: takeWhile_line_token)
  qed
  from first second show ?thesis by blast
qed

theorem stored_link_is_first_token_witness:
  "accept_link sample_decimal (link_call (ascii ''accept_link 1'') (confirm_text nbsp_link)) db_new =
     Inr (db_new\<lparr>reports := [1 \<mapsto> report_new\<lparr>status := ACCEPTED, link := Some (ascii ''http://x/1'')\<rparr>]\<rparr>,
          [SendMessage 1 (ascii ''The issue has been confirmed.'') NoMarkup])
   \<and> takeWhile (\<lambda>ch. \<not> is_space ch) nbsp_link = ascii ''http://x/1''"
proof -
  let ?c = "link_call (ascii ''accept_link 1'') (confirm_text nbsp_link)"
  have a: "msg_text (call_message ?c) =
             ascii ''Is the link provided correct?'' @ [newline] @ ascii ''Link:'' @ [blank] @
             nbsp_link"
    by (simp add: link_call_def confirm_text_def ascii_def blank_def)
  have b: "newline \<notin> set (ascii ''Is the link provided correct?'')"
    by (simp add: newline_def ascii_def)
  have c: "ascii ''Link:'' \<noteq> []" by (simp add: ascii_def)
  have d: "\<forall>ch\<in>set (ascii ''Link:''). \<not> is_space ch"
    by (simp add: is_space_def ascii_def)
  have e: "split (takeWhile (\<lambda>ch. ch \<noteq> newline) nbsp_link) =
             ascii ''http://x/1'' # [ascii ''see'', ascii ''comment'']"
    by (simp add: nbsp_link_def split_def is_space_def newline_def ascii_def)
  have f: "split (call_data ?c) = [ascii ''accept_link'', ascii ''1'']"
    by (simp add: link_call_def split_def is_space_def ascii_def)
  have t: "takeWhile (\<lambda>ch. \<not> is_space ch) nbsp_link = ascii ''http://x/1''"
    by (simp add: nbsp_link_def is_space_def ascii_def)
  from stored_link_is_first_token [OF a b c d e f py_int_1 [of sample_decimal], of db_new] t
  show ?thesis
    by (simp add: link_call_def db_new_def change_status_def transition_def report_new_def
        only_ascii_def)
qed

section \<open>Authorization\<close>

text \<open>
  Claim C6. The claim asks that a caller who is not an administrator gets no answer and
  changes nothing. \<^verbatim>\<open>broadcast_input\<close> does check the caller, but
  \<^verbatim>\<open>change_report_status\<close> never looks at \<^verbatim>\<open>call.from_user.id\<close>: a
  \<^verbatim>\<open>reject_report\<close> callback of user 7, who is not in \<open>ADMINS\<close>, is answered and the
  report is rejected.
\<close>

theorem review_action_not_gated:
  "call_from_user_id (review_call (ascii ''reject_report'') 7) \<notin> set (ADMINS sample_config)
   \<and> change_report_status (review_call (ascii ''reject_report'') 7) db_new =
       Inr (db_new\<lparr>reports := [1 \<mapsto> report_new\<lparr>status := REJECTED\<rparr>]\<rparr>,
            [SendMessage 7 (ascii ''The issue has been rejected.'') NoMarkup])
   \<and> broadcast_input sample_config (text_msg (ascii ''/broadcast'')) = []"
  using reject_db_new [of 7]
  by (simp add: review_call_def sample_config_def broadcast_input_def text_msg_def)

section \<open>Input validation\<close>

text \<open>
  Claim C7. In \<^verbatim>\<open>ring_output\<close> (commands \<^verbatim>\<open>/idempotents\<close>, \<^verbatim>\<open>/nilpotents\<close>) and in
  \<^verbatim>\<open>inverse_input_element\<close> (command \<^verbatim>\<open>/inverse\<close>), a modulus text that is not an
  integer is answered with "Input data error", and an integer outside \<open>2 \<le> n < MAX_MODULO\<close>
  with the limitation message; in both cases this one message is all that happens: no
  next step is registered and no ring function is called.
\<close>

theorem modulus_input_rejected:
  "(py_int dec (strip (msg_text m)) = None \<longrightarrow>
      ring_output dec cfg ex m command = ([SendMessage (chat_id m) (ascii ''Input data error'') Menu], None)
    \<and> inverse_input_element dec cfg ex m = [SendMessage (chat_id m) (ascii ''Input data error'') Menu])
 \<and> (py_int dec (strip (msg_text m)) = Some n \<longrightarrow> \<not> (2 \<le> n \<and> n < MAX_MODULO cfg) \<longrightarrow>
      ring_output dec cfg ex m command =
        ([SendMessage (chat_id m)
            ((ascii ''Limitation: 2 <= n < '') @ format_E ex (MAX_MODULO cfg)) Menu], None)
    \<and> inverse_input_element dec cfg ex m =
        [SendMessage (chat_id m)
            ((ascii ''Limitation: 2 <= n < '') @ format_E ex (MAX_MODULO cfg)) Menu])"
  by (auto simp: ring_output_def inverse_input_element_def limitation_def)

theorem modulus_input_rejected_witness:
  "ring_output sample_decimal sample_config sample_extern (text_msg fullwidth_one)
       (ascii ''idempotents'') =
     ([SendMessage 3 (ascii ''Limitation: 2 <= n < 1.000000E+09'') Menu], None)
   \<and> inverse_input_element sample_decimal sample_config sample_extern (text_msg fullwidth_one) =
     [SendMessage 3 (ascii ''Limitation: 2 <= n < 1.000000E+09'') Menu]
   \<and> ring_output sample_decimal sample_config sample_extern (text_msg (ascii ''two''))
       (ascii ''idempotents'') =
     ([SendMessage 3 (ascii ''Input data error'') Menu], None)
   \<and> inverse_input_element sample_decimal sample_config sample_extern (text_msg (ascii ''two'')) =
     [SendMessage 3 (ascii ''Input data error'') Menu]"
proof -
  have p1: "py_int sample_decimal (strip (msg_text (text_msg fullwidth_one))) = Some 1"
    by (simp add: text_msg_def fullwidth_one_def int_defs)
  have p2: "py_int sample_decimal (strip (msg_text (text_msg (ascii ''two'')))) = None"
    by (simp add: text_msg_def int_defs)
  have o: "\<not> (2 \<le> (1::int) \<and> 1 < MAX_MODULO sample_config)" by simp
  from modulus_input_rejected [where dec = sample_decimal and m = "text_msg fullwidth_one"
      and cfg = sample_config and ex = sample_extern and command = "ascii ''idempotents''"
      and n = 1]
    modulus_input_rejected [where dec = sample_decimal and m = "text_msg (ascii ''two'')"
      and cfg = sample_config and ex = sample_extern and command = "ascii ''idempotents''"
      and n = 0]
    p1 p2 o
  show ?thesis by (simp add: text_msg_def sample_config_def sample_extern_def ascii_def)
qed



text \<open>
  Claim C10. In \<^verbatim>\<open>inverse_output\<close> the element is reduced modulo the modulus before
  \<^verbatim>\<open>find_inverse\<close> is called: two element texts in the same chat whose integers are
  congruent modulo the modulus give the same messages and the same answer, and both are
  those of the reduced element.
\<close>

theorem inverse_output_congruent:
  assumes "py_int dec (strip (msg_text m)) = Some e"
      and "py_int dec (strip (msg_text m')) = Some e'"
      and "chat_id m' = chat_id m"
      and "e mod md = e' mod md"
  shows "inverse_output dec ex m' md = inverse_output dec ex m md
       \<and> (md \<noteq> 0 \<longrightarrow>
            inverse_output dec ex m md =
              (case find_inverse ex (e mod md) md of
                 Inl err \<Rightarrow>
                   if err = ArithmeticError \<or> err = ZeroDivisionError
                   then Inr ([SendMessage (chat_id m) (no_inverse_answer (e mod md) md) NoMarkup],
                             Some (no_inverse_answer (e mod md) md))
                   else Inl err
               | Inr result \<Rightarrow>
                   Inr ([SendMessage (chat_id m) (str_int result) NoMarkup],
                        Some (str_int result))))"
  using assms by (auto simp: inverse_output_def Let_def split: sum.splits)

theorem inverse_output_congruent_witness:
  "inverse_output sample_decimal sample_extern (text_msg fullwidth_ten) 7 =
     inverse_output sample_decimal sample_extern (text_msg (ascii ''3'')) 7
   \<and> inverse_output sample_decimal sample_extern (text_msg (ascii ''3'')) 7 =
     Inr ([SendMessage 3 (ascii ''5'') NoMarkup], Some (ascii ''5''))"
proof -
  have p1: "py_int sample_decimal (strip (msg_text (text_msg (ascii ''3'')))) = Some 3"
    by (simp add: text_msg_def int_defs)
  have p2: "py_int sample_decimal (strip (msg_text (text_msg fullwidth_ten))) = Some 10"
    by (simp add: text_msg_def fullwidth_ten_def int_defs)
  have c: "chat_id (text_msg fullwidth_ten) = chat_id (text_msg (ascii ''3''))"
    by (simp add: text_msg_def)
  have m: "(3::int) mod 7 = 10 mod 7" by simp
  have f: "find_inverse sample_extern (3 mod 7) 7 = Inr 5"
  proof -
    have "map int [0..<nat 7] = [0, 1, 2, 3, 4, 5, 6]"
      by (simp add: upt_rec)
    then show ?thesis by (simp add: sample_extern_def)
  qed
  have s: "str_int 5 = ascii ''5''" by (simp add: str_int_def ascii_def)
  from inverse_output_congruent [OF p1 p2 c m, of sample_extern] f s
  show ?thesis by (simp add: text_msg_def)
qed

end
